theory Spec2Isabelle
  imports Complex_Main "HOL-Library.Word" "HOL-Library.Log_Nat"
begin

unbundle bit_operations_syntax

section \<open>PCA9685 driver: constants of the header\<close>

type_synonym u8 = "8 word"
type_synonym u16 = "16 word"
type_synonym u32 = "32 word"

definition OSC_FREQ :: u32 where "OSC_FREQ = 25000000"

definition PCA9685_I2C_ADDR :: u8 where "PCA9685_I2C_ADDR = 0x40"
definition PCA9685_I2C_ALL_CALL :: u8 where "PCA9685_I2C_ALL_CALL = 0x70"
definition PCA9685_SUB_CALL_1 :: u8 where "PCA9685_SUB_CALL_1 = 0x71"
definition PCA9685_SUB_CALL_2 :: u8 where "PCA9685_SUB_CALL_2 = 0x72"
definition PCA9685_SUB_CALL_3 :: u8 where "PCA9685_SUB_CALL_3 = 0x73"

definition PCA9685_MODE1 :: u8 where "PCA9685_MODE1 = 0x00"
definition PCA9685_MODE2 :: u8 where "PCA9685_MODE2 = 0x01"
definition PCA9685_LED0_ON_L :: u8 where "PCA9685_LED0_ON_L = 0x06"
definition PCA9685_ALL_LED_ON_L :: u8 where "PCA9685_ALL_LED_ON_L = 0xFA"
definition PCA9685_PRESCALE :: u8 where "PCA9685_PRESCALE = 0xFE"

definition MODE1_SLEEP :: u8 where "MODE1_SLEEP = push_bit 4 1"
definition MODE1_AI :: u8 where "MODE1_AI = push_bit 5 1"
definition MODE1_EXTCLK :: u8 where "MODE1_EXTCLK = push_bit 6 1"
definition MODE1_RESTART :: u8 where "MODE1_RESTART = push_bit 7 1"

definition MODE2_OUTDRV :: u8 where "MODE2_OUTDRV = push_bit 2 1"

datatype EAddressType = Normal | AllCall | SubCall1 | SubCall2 | SubCall3

datatype EOutputType = OpenDrain | TotemPole

section \<open>The two-wire bus (external collaborator)\<close>

text \<open>
  The driver only borrows a \<^verbatim>\<open>TwoWire\<close> handle. Its state is modelled as the
  transmit and receive buffers of the Arduino API, a log of what went over the
  wire (one entry per completed transaction, plus the calls of \<^verbatim>\<open>delay\<close>), and
  a register file behind every bus address that stands for the chip: a write
  transaction's first byte selects a register, the following bytes are stored
  there (at consecutive registers when the chip's auto-increment bit is set),
  and a read request returns the bytes at the selected register. Every bus
  transaction succeeds; the driver ignores the status codes anyway.
\<close>

datatype event =
    Transmit u8 "u8 list"   \<comment> \<open>beginTransmission(addr); write(..)*; endTransmission()\<close>
  | Request u8 nat          \<comment> \<open>requestFrom(addr, count)\<close>
  | Delay nat               \<comment> \<open>delay(ms)\<close>

record chip =
  regs :: "u8 \<Rightarrow> u8"
  pointer :: u8

record TwoWire =
  txAddress :: u8
  txBuffer :: "u8 list"
  rxBuffer :: "u8 list"
  devices :: "u8 \<Rightarrow> chip"
  events :: "event list"

definition auto_increment :: "chip \<Rightarrow> bool" where
  "auto_increment c = (regs c PCA9685_MODE1 AND MODE1_AI \<noteq> 0)"

fun store_bytes :: "bool \<Rightarrow> u8 list \<Rightarrow> chip \<Rightarrow> chip" where
  "store_bytes ai [] c = c"
| "store_bytes ai (b # bs) c =
     store_bytes ai bs
       (c\<lparr>regs := (regs c)(pointer c := b),
          pointer := (if ai then pointer c + 1 else pointer c)\<rparr>)"

fun chip_write :: "u8 list \<Rightarrow> chip \<Rightarrow> chip" where
  "chip_write [] c = c"
| "chip_write (r # bs) c = store_bytes (auto_increment c) bs (c\<lparr>pointer := r\<rparr>)"

fun chip_read :: "nat \<Rightarrow> chip \<Rightarrow> u8 list \<times> chip" where
  "chip_read 0 c = ([], c)"
| "chip_read (Suc n) c =
     (let b = regs c (pointer c);
          c' = (if auto_increment c then c\<lparr>pointer := pointer c + 1\<rparr> else c);
          (bs, c'') = chip_read n c'
      in (b # bs, c''))"

definition wire_begin :: "TwoWire \<Rightarrow> TwoWire" where
  "wire_begin w = w\<lparr>txBuffer := [], rxBuffer := []\<rparr>"

definition beginTransmission :: "u8 \<Rightarrow> TwoWire \<Rightarrow> TwoWire" where
  "beginTransmission a w = w\<lparr>txAddress := a, txBuffer := []\<rparr>"

definition wire_write :: "u8 \<Rightarrow> TwoWire \<Rightarrow> TwoWire" where
  "wire_write b w = w\<lparr>txBuffer := txBuffer w @ [b]\<rparr>"

definition endTransmission :: "TwoWire \<Rightarrow> TwoWire" where
  "endTransmission w =
     w\<lparr>devices := (devices w)(txAddress w := chip_write (txBuffer w) (devices w (txAddress w))),
       events := events w @ [Transmit (txAddress w) (txBuffer w)],
       txBuffer := []\<rparr>"

definition requestFrom :: "u8 \<Rightarrow> nat \<Rightarrow> TwoWire \<Rightarrow> TwoWire" where
  "requestFrom a n w =
     (let (bs, c) = chip_read n (devices w a)
      in w\<lparr>devices := (devices w)(a := c),
           events := events w @ [Request a n],
           rxBuffer := bs\<rparr>)"

text \<open>\<^verbatim>\<open>read()\<close> yields -1 on an empty buffer, which is 0xFF once narrowed to a byte.\<close>

definition wire_read :: "TwoWire \<Rightarrow> u8 \<times> TwoWire" where
  "wire_read w =
     (case rxBuffer w of
        [] \<Rightarrow> (0xFF, w)
      | b # bs \<Rightarrow> (b, w\<lparr>rxBuffer := bs\<rparr>))"

definition delay :: "nat \<Rightarrow> TwoWire \<Rightarrow> TwoWire" where
  "delay ms w = w\<lparr>events := events w @ [Delay ms]\<rparr>"

section \<open>The driver object\<close>

record PCA9685_Driver =
  i2c :: TwoWire
  i2c_address :: u8
  i2c_allCall_address :: u8
  i2c_sub1_address :: u8
  i2c_sub2_address :: u8
  i2c_sub3_address :: u8
  osillator_freq :: u32

text \<open>
  The constructors leave \<^verbatim>\<open>_osillator_freq\<close> uninitialised; \<open>junk\<close> is whatever
  the field holds until \<^verbatim>\<open>begin\<close> or \<^verbatim>\<open>setOscillFrequency\<close> assigns it.
\<close>

definition new_driver :: "u8 \<Rightarrow> TwoWire \<Rightarrow> u32 \<Rightarrow> PCA9685_Driver" where
  "new_driver addr wire junk =
     \<lparr>i2c = wire, i2c_address = addr,
      i2c_allCall_address = PCA9685_I2C_ALL_CALL,
      i2c_sub1_address = PCA9685_SUB_CALL_1,
      i2c_sub2_address = PCA9685_SUB_CALL_2,
      i2c_sub3_address = PCA9685_SUB_CALL_3,
      osillator_freq = junk\<rparr>"

fun getAddress :: "PCA9685_Driver \<Rightarrow> EAddressType \<Rightarrow> u8" where
  "getAddress d AllCall = i2c_allCall_address d"
| "getAddress d SubCall1 = i2c_sub1_address d"
| "getAddress d SubCall2 = i2c_sub2_address d"
| "getAddress d SubCall3 = i2c_sub3_address d"
| "getAddress d Normal = i2c_address d"

definition readByte :: "u8 \<Rightarrow> PCA9685_Driver \<Rightarrow> u8 \<times> PCA9685_Driver" where
  "readByte reg_addr d =
     (let w = beginTransmission (i2c_address d) (i2c d);
          w = wire_write reg_addr w;
          w = endTransmission w;
          w = requestFrom (i2c_address d) 1 w;
          (b, w) = wire_read w
      in (b, d\<lparr>i2c := w\<rparr>))"

definition writeByte :: "EAddressType \<Rightarrow> u8 \<Rightarrow> u8 \<Rightarrow> PCA9685_Driver \<Rightarrow> PCA9685_Driver" where
  "writeByte addressType reg_addr data d =
     (let w = beginTransmission (getAddress d addressType) (i2c d);
          w = wire_write reg_addr w;
          w = wire_write data w;
          w = endTransmission w
      in d\<lparr>i2c := w\<rparr>)"

definition restart :: "EAddressType \<Rightarrow> PCA9685_Driver \<Rightarrow> PCA9685_Driver" where
  "restart addressType d =
     (let d = writeByte addressType PCA9685_MODE1 MODE1_RESTART d
      in d\<lparr>i2c := delay 10 (i2c d)\<rparr>)"

definition sleep :: "EAddressType \<Rightarrow> PCA9685_Driver \<Rightarrow> PCA9685_Driver" where
  "sleep addressType d =
     (let (v, d) = readByte PCA9685_MODE1 d
      in writeByte addressType PCA9685_MODE1 (v OR MODE1_SLEEP) d)"

definition wakeUp :: "EAddressType \<Rightarrow> PCA9685_Driver \<Rightarrow> PCA9685_Driver" where
  "wakeUp addressType d =
     (let (v, d) = readByte PCA9685_MODE1 d
      in writeByte addressType PCA9685_MODE1 (v AND NOT MODE1_SLEEP) d)"

definition setMode1 :: "u8 \<Rightarrow> EAddressType \<Rightarrow> PCA9685_Driver \<Rightarrow> PCA9685_Driver" where
  "setMode1 v addressType d =
     (let (old, d) = readByte PCA9685_MODE1 d;      \<comment> \<open>debug print of the old value\<close>
          d = writeByte addressType PCA9685_MODE1 v d;
          (new, d) = readByte PCA9685_MODE1 d       \<comment> \<open>debug print of the new value\<close>
      in d)"

definition setMode2 :: "u8 \<Rightarrow> EAddressType \<Rightarrow> PCA9685_Driver \<Rightarrow> PCA9685_Driver" where
  "setMode2 v addressType d =
     (let (old, d) = readByte PCA9685_MODE2 d;
          d = writeByte addressType PCA9685_MODE2 v d;
          (new, d) = readByte PCA9685_MODE2 d
      in d)"

definition readRegister :: "u8 \<Rightarrow> PCA9685_Driver \<Rightarrow> u8 \<times> PCA9685_Driver" where
  "readRegister reg_addr d = readByte reg_addr d"

definition writeRegister :: "u8 \<Rightarrow> u8 \<Rightarrow> EAddressType \<Rightarrow> PCA9685_Driver \<Rightarrow> PCA9685_Driver" where
  "writeRegister reg_addr data addressType d = writeByte addressType reg_addr data d"

definition getOscillFrequency :: "PCA9685_Driver \<Rightarrow> u32" where
  "getOscillFrequency d = osillator_freq d"

definition setOscillFrequency :: "u32 \<Rightarrow> PCA9685_Driver \<Rightarrow> PCA9685_Driver" where
  "setOscillFrequency frequency d = d\<lparr>osillator_freq := frequency\<rparr>"

section \<open>Floating point\<close>

text \<open>
  \<^verbatim>\<open>setPWMFrequency\<close>, \<^verbatim>\<open>setExtClock\<close> and \<^verbatim>\<open>getPWMFrequency\<close> take and return
  \<^verbatim>\<open>float\<close>. What the platform's floating point computes is not part of the
  repository, so the functions take it as a parameter: a type \<open>'f\<close> of float
  values with the operations the source applies to them. Whatever is proved
  for every \<open>'f float_ops\<close> holds for the target's arithmetic too.
\<close>

record 'f float_ops =
  f_of_int :: "int \<Rightarrow> 'f"             \<comment> \<open>\<^verbatim>\<open>int\<close> to \<^verbatim>\<open>float\<close>\<close>
  f_of_u32 :: "u32 \<Rightarrow> 'f"             \<comment> \<open>\<^verbatim>\<open>uint32_t\<close> to \<^verbatim>\<open>float\<close>\<close>
  f_to_u32 :: "'f \<Rightarrow> u32"             \<comment> \<open>\<^verbatim>\<open>float\<close> to \<^verbatim>\<open>uint32_t\<close>\<close>
  f_to_u8 :: "'f \<Rightarrow> u8"               \<comment> \<open>\<^verbatim>\<open>(uint8_t)x\<close>\<close>
  f_less :: "'f \<Rightarrow> 'f \<Rightarrow> bool"        \<comment> \<open>\<^verbatim>\<open>x < y\<close>; \<^verbatim>\<open>x > y\<close> is \<^verbatim>\<open>y < x\<close>\<close>
  f_mul :: "'f \<Rightarrow> 'f \<Rightarrow> 'f"
  f_div :: "'f \<Rightarrow> 'f \<Rightarrow> 'f"
  f_add_half_sub_one :: "'f \<Rightarrow> 'f"    \<comment> \<open>\<^verbatim>\<open>(x + 0.5) - 1\<close>, assigned to a \<^verbatim>\<open>float\<close>\<close>

text \<open>
  One such semantics, for evaluating the functions at concrete inputs: IEEE 754
  single precision (binary32) with round to nearest, ties to even. A float is a
  real number that the format holds, an infinity or NaN. Every operation
  rounds the exact result to 24 significant bits (fewer below \<open>2^-126\<close>, the
  subnormal range) and overflows to an infinity from \<open>2^128\<close> on. The expression
  \<^verbatim>\<open>(x + 0.5) - 1\<close> has a \<^verbatim>\<open>double\<close> constant, so it is evaluated in double
  precision (binary64, 53 bits) and rounded to single precision when assigned
  (on 8-bit AVR, where \<^verbatim>\<open>double\<close> is single precision too, both steps would
  round to 24 bits instead).
  Not modelled: the sign of zero (the driver divides by \<open>4096 * target\<close> only,
  whose target is at least 1, the integer limit or NaN), and the conversion of an
  out-of-range float to an unsigned integer, which C++ leaves undefined (here
  the truncated value wraps, and an infinity or NaN gives 0).
\<close>

datatype float32 = Num real | PlusInf | MinusInf | NaN

text \<open>Rounding to the nearest integer, a tie going to the even one.\<close>

definition rne :: "real \<Rightarrow> int" where
  "rne x =
     (let n = \<lfloor>x\<rfloor>
      in if x - of_int n < 1/2 then n
         else if 1/2 < x - of_int n then n + 1
         else if even n then n else n + 1)"

text \<open>The binary exponent of a positive number: \<open>2 ^ expo x \<le> x < 2 ^ (expo x + 1)\<close>.\<close>

definition expo :: "real \<Rightarrow> int" where
  "expo x = (if 1 \<le> x then bitlen \<lfloor>x\<rfloor> - 1 else - bitlen (\<lceil>1 / x\<rceil> - 1))"

definition two_to :: "int \<Rightarrow> real" where
  "two_to k = (if 0 \<le> k then 2 ^ nat k else 1 / 2 ^ nat (- k))"

text \<open>Rounding to \<open>p\<close> significant bits, with exponent at least \<open>emin\<close>.\<close>

definition round_to :: "nat \<Rightarrow> int \<Rightarrow> real \<Rightarrow> real" where
  "round_to p emin x =
     (if x = 0 then 0
      else let u = two_to (max emin (expo \<bar>x\<bar>) - int p + 1)
           in sgn x * of_int (rne (\<bar>x\<bar> / u)) * u)"

definition to_float :: "real \<Rightarrow> float32" where
  "to_float x =
     (let r = round_to 24 (- 126) x
      in if 2 ^ 128 \<le> r then PlusInf else if r \<le> - (2 ^ 128) then MinusInf else Num r)"

definition to_double :: "real \<Rightarrow> real" where
  "to_double x = round_to 53 (- 1022) x"

fun f32_less :: "float32 \<Rightarrow> float32 \<Rightarrow> bool" where
  "f32_less (Num a) (Num b) = (a < b)"
| "f32_less (Num a) PlusInf = True"
| "f32_less MinusInf (Num b) = True"
| "f32_less MinusInf PlusInf = True"
| "f32_less x y = False"

fun f32_mul :: "float32 \<Rightarrow> float32 \<Rightarrow> float32" where
  "f32_mul (Num a) (Num b) = to_float (a * b)"
| "f32_mul NaN y = NaN"
| "f32_mul x NaN = NaN"
| "f32_mul (Num a) PlusInf = (if a = 0 then NaN else if 0 < a then PlusInf else MinusInf)"
| "f32_mul (Num a) MinusInf = (if a = 0 then NaN else if 0 < a then MinusInf else PlusInf)"
| "f32_mul PlusInf (Num b) = (if b = 0 then NaN else if 0 < b then PlusInf else MinusInf)"
| "f32_mul MinusInf (Num b) = (if b = 0 then NaN else if 0 < b then MinusInf else PlusInf)"
| "f32_mul PlusInf PlusInf = PlusInf"
| "f32_mul MinusInf MinusInf = PlusInf"
| "f32_mul PlusInf MinusInf = MinusInf"
| "f32_mul MinusInf PlusInf = MinusInf"

fun f32_div :: "float32 \<Rightarrow> float32 \<Rightarrow> float32" where
  "f32_div (Num a) (Num b) =
     (if b = 0 then (if a = 0 then NaN else if 0 < a then PlusInf else MinusInf)
      else to_float (a / b))"
| "f32_div NaN y = NaN"
| "f32_div x NaN = NaN"
| "f32_div (Num a) PlusInf = Num 0"
| "f32_div (Num a) MinusInf = Num 0"
| "f32_div PlusInf (Num b) = (if 0 \<le> b then PlusInf else MinusInf)"
| "f32_div MinusInf (Num b) = (if 0 \<le> b then MinusInf else PlusInf)"
| "f32_div x y = NaN"

fun f32_add_half_sub_one :: "float32 \<Rightarrow> float32" where
  "f32_add_half_sub_one (Num x) = to_float (to_double (to_double (x + 1/2) - 1))"
| "f32_add_half_sub_one x = x"

text \<open>Conversion to an integer truncates towards zero.\<close>

definition trunc :: "real \<Rightarrow> int" where
  "trunc x = (if 0 \<le> x then \<lfloor>x\<rfloor> else \<lceil>x\<rceil>)"

fun f32_to_int :: "float32 \<Rightarrow> int" where
  "f32_to_int (Num x) = trunc x"
| "f32_to_int x = 0"

definition binary32_fops :: "float32 float_ops" where
  "binary32_fops =
     \<lparr>f_of_int = (\<lambda>i. to_float (real_of_int i)),
      f_of_u32 = (\<lambda>w. to_float (real (unat w))),
      f_to_u32 = (\<lambda>x. word_of_int (f32_to_int x)),
      f_to_u8 = (\<lambda>x. word_of_int (f32_to_int x)),
      f_less = f32_less,
      f_mul = f32_mul,
      f_div = f32_div,
      f_add_half_sub_one = f32_add_half_sub_one\<rparr>"

section \<open>Frequency and clock\<close>

text \<open>
  \<^verbatim>\<open>int\<close> is taken to be at least 32 bits wide, so that neither the upper limit
  \<open>osc / 16384 < 2^18\<close> nor \<open>4096 * (prescale + 1) \<le> 2^20\<close> overflows; the quotient
  of the return statements is the unsigned 32-bit one of the usual arithmetic
  conversions, and it is below \<open>2^20\<close>, so its conversion to \<^verbatim>\<open>float\<close> is exact.
  The reads that only feed the debug prints are part of the functions, since
  the source file defines \<^verbatim>\<open>ENABLE_DEBUG_OUTPUT\<close>; the prints themselves leave
  no trace on the bus or in the driver.
\<close>

definition setExtClock ::
  "'f float_ops \<Rightarrow> 'f \<Rightarrow> 'f \<Rightarrow> EAddressType \<Rightarrow> PCA9685_Driver \<Rightarrow> PCA9685_Driver" where
  "setExtClock fl frequency pwmFrequency addressType d =
     (let (v, d) = readByte PCA9685_MODE1 d;
          mode = (v AND NOT MODE1_RESTART) OR MODE1_SLEEP;
          d = writeByte addressType PCA9685_MODE1 mode d;
          mode = mode OR MODE1_EXTCLK;
          d = writeByte addressType PCA9685_MODE1 mode d;
          d = setOscillFrequency (f_to_u32 fl frequency) d;
          upper_limit = uint (osillator_freq d div 16384);
          pwmFrequency =
            (if f_less fl pwmFrequency (f_of_int fl 1) then f_of_int fl 1
             else if f_less fl (f_of_int fl upper_limit) pwmFrequency then f_of_int fl upper_limit
             else pwmFrequency);
          prescale_value =
            f_add_half_sub_one fl
              (f_div fl (f_of_u32 fl (osillator_freq d)) (f_mul fl (f_of_int fl 4096) pwmFrequency));
          prescale_value =
            (if f_less fl prescale_value (f_of_int fl 0x03) then f_of_int fl 0x03
             else if f_less fl (f_of_int fl 0xff) prescale_value then f_of_int fl 0xff
             else prescale_value);
          d = writeByte addressType PCA9685_PRESCALE (f_to_u8 fl prescale_value) d;
          d = writeByte addressType PCA9685_MODE1
                ((mode AND NOT MODE1_SLEEP) OR MODE1_RESTART OR MODE1_AI) d;
          (new, d) = readByte PCA9685_MODE1 d       \<comment> \<open>debug print of the new mode-1\<close>
      in d)"

definition setPWMFrequency ::
  "'f float_ops \<Rightarrow> 'f \<Rightarrow> EAddressType \<Rightarrow> PCA9685_Driver \<Rightarrow> 'f \<times> PCA9685_Driver" where
  "setPWMFrequency fl frequency addressType d =
     (let upper_limit = uint (osillator_freq d div 16384);
          frequency =
            (if f_less fl frequency (f_of_int fl 1) then f_of_int fl 1
             else if f_less fl (f_of_int fl upper_limit) frequency then f_of_int fl upper_limit
             else frequency);
          prescale_value =
            f_add_half_sub_one fl
              (f_div fl (f_of_u32 fl (osillator_freq d)) (f_mul fl (f_of_int fl 4096) frequency));
          prescale_value =
            (if f_less fl prescale_value (f_of_int fl 0x03) then f_of_int fl 0x03
             else if f_less fl (f_of_int fl 0xff) prescale_value then f_of_int fl 0xff
             else prescale_value);
          (current_mode1, d) = readByte PCA9685_MODE1 d;
          (shown, d) = readByte PCA9685_MODE1 d     \<comment> \<open>debug print of the current mode-1\<close>;
          d = writeByte addressType PCA9685_MODE1
                ((current_mode1 AND NOT MODE1_RESTART) OR MODE1_SLEEP) d;
          d = writeByte addressType PCA9685_PRESCALE (f_to_u8 fl prescale_value) d;
          d = writeByte addressType PCA9685_MODE1 current_mode1 d;
          d = d\<lparr>i2c := delay 5 (i2c d)\<rparr>;
          d = writeByte addressType PCA9685_MODE1
                (current_mode1 OR MODE1_RESTART OR MODE1_AI) d;
          (new, d) = readByte PCA9685_MODE1 d       \<comment> \<open>debug print of the new mode-1\<close>
      in (f_of_u32 fl (osillator_freq d div (4096 * (ucast (f_to_u8 fl prescale_value) + 1))), d))"

definition getPWMFrequency :: "'f float_ops \<Rightarrow> PCA9685_Driver \<Rightarrow> 'f \<times> PCA9685_Driver" where
  "getPWMFrequency fl d =
     (let (p, d) = readByte PCA9685_PRESCALE d
      in (f_of_u32 fl (osillator_freq d div (4096 * (ucast p + 1))), d))"

definition begin_driver :: "'f float_ops \<Rightarrow> 'f \<Rightarrow> PCA9685_Driver \<Rightarrow> PCA9685_Driver" where
  "begin_driver fl frequency d =
     (let d = d\<lparr>i2c := wire_begin (i2c d)\<rparr>;
          d = restart Normal d;
          d = setOscillFrequency OSC_FREQ d;
          (actual, d) = setPWMFrequency fl frequency Normal d
      in d)"

section \<open>Outputs\<close>

text \<open>An expression statement: the value is computed and thrown away.\<close>

definition discard :: "'a \<Rightarrow> 'b \<Rightarrow> 'b" where
  "discard unused rest = rest"

definition setOutputType :: "EOutputType \<Rightarrow> EAddressType \<Rightarrow> PCA9685_Driver \<Rightarrow> PCA9685_Driver" where
  "setOutputType type addressType d =
     (let (mode, d) = readByte PCA9685_MODE2 d;
          d = (case type of
                 TotemPole \<Rightarrow> discard (mode OR MODE2_OUTDRV) d
               | OpenDrain \<Rightarrow> discard (mode AND NOT MODE2_OUTDRV) d);
          d = writeByte addressType PCA9685_MODE2 mode d;
          (new, d) = readByte PCA9685_MODE2 d       \<comment> \<open>debug print of the new mode-2\<close>
      in d)"

definition setPWMOutput ::
  "u8 \<Rightarrow> u16 \<Rightarrow> u16 \<Rightarrow> EAddressType \<Rightarrow> PCA9685_Driver \<Rightarrow> PCA9685_Driver" where
  "setPWMOutput output on off addressType d =
     (let w = beginTransmission (getAddress d addressType) (i2c d);
          w = wire_write (PCA9685_LED0_ON_L + 4 * output) w;
          w = wire_write (ucast (on AND 0xFF)) w;
          w = wire_write (ucast (drop_bit 8 on AND 0xFF)) w;
          w = wire_write (ucast (off AND 0xFF)) w;
          w = wire_write (ucast (drop_bit 8 off AND 0xFF)) w;
          w = endTransmission w
      in d\<lparr>i2c := w\<rparr>)"

definition setAllPWMOutputs :: "u16 \<Rightarrow> u16 \<Rightarrow> EAddressType \<Rightarrow> PCA9685_Driver \<Rightarrow> PCA9685_Driver" where
  "setAllPWMOutputs on off addressType d =
     (let w = beginTransmission (getAddress d addressType) (i2c d);
          w = wire_write PCA9685_ALL_LED_ON_L w;
          w = wire_write (ucast (on AND 0xFF)) w;
          w = wire_write (ucast (drop_bit 8 on AND 0xFF)) w;
          w = wire_write (ucast (off AND 0xFF)) w;
          w = wire_write (ucast (drop_bit 8 off AND 0xFF)) w;
          w = endTransmission w
      in d\<lparr>i2c := w\<rparr>)"

section \<open>Observations and test fixtures\<close>

text \<open>What the chip at bus address \<open>a\<close> holds in register \<open>r\<close>, and what has gone over the wire.\<close>

definition reg :: "PCA9685_Driver \<Rightarrow> u8 \<Rightarrow> u8 \<Rightarrow> u8" where
  "reg d a r = regs (devices (i2c d) a) r"

definition wire_log :: "PCA9685_Driver \<Rightarrow> event list" where
  "wire_log d = events (i2c d)"

text \<open>The bus addresses of the read requests in a log, in order.\<close>

fun requests :: "event list \<Rightarrow> u8 list" where
  "requests [] = []"
| "requests (Request a n # es) = a # requests es"
| "requests (Transmit a bs # es) = requests es"
| "requests (Delay ms # es) = requests es"

text \<open>
  The float computation of lines 162-168 and 176 of \<^verbatim>\<open>setExtClock\<close>, which lines
  201-207 and 221 of \<^verbatim>\<open>setPWMFrequency\<close> repeat word for word, under a name of its
  own so that statements can refer to the byte that reaches the prescaler.
\<close>

definition clamp_frequency :: "'f float_ops \<Rightarrow> u32 \<Rightarrow> 'f \<Rightarrow> 'f" where
  "clamp_frequency fl osc frequency =
     (let upper_limit = uint (osc div 16384)
      in if f_less fl frequency (f_of_int fl 1) then f_of_int fl 1
         else if f_less fl (f_of_int fl upper_limit) frequency then f_of_int fl upper_limit
         else frequency)"

definition prescale_byte :: "'f float_ops \<Rightarrow> u32 \<Rightarrow> 'f \<Rightarrow> u8" where
  "prescale_byte fl osc frequency =
     (let prescale_value =
            f_add_half_sub_one fl
              (f_div fl (f_of_u32 fl osc)
                 (f_mul fl (f_of_int fl 4096) (clamp_frequency fl osc frequency)));
          prescale_value =
            (if f_less fl prescale_value (f_of_int fl 0x03) then f_of_int fl 0x03
             else if f_less fl (f_of_int fl 0xff) prescale_value then f_of_int fl 0xff
             else prescale_value)
      in f_to_u8 fl prescale_value)"

text \<open>
  The prescaler in the specification's words, in real arithmetic: the target
  clamped to \<open>[1, osc/16384]\<close>, then \<open>round(osc / (4096 \<times> target)) - 1\<close> (that is
  \<open>floor(osc / (4096 \<times> target) + 0.5) - 1\<close>) clamped to \<open>[3, 255]\<close>.
\<close>

definition spec_prescale :: "real \<Rightarrow> real \<Rightarrow> int" where
  "spec_prescale osc f =
     (let f' = max 1 (min (osc / 16384) f)
      in max 3 (min 255 (round (osc / (4096 * f')) - 1)))"

text \<open>A float semantics that compares the conversions of the given integers as the integers.\<close>

definition orders_ints :: "'f float_ops \<Rightarrow> int list \<Rightarrow> bool" where
  "orders_ints fl xs =
     (\<forall>a \<in> set xs. \<forall>b \<in> set xs. f_less fl (f_of_int fl a) (f_of_int fl b) = (a < b))"

text \<open>A chip with the register values of the data sheet after power-on, on an idle bus.\<close>

definition power_on_chip :: chip where
  "power_on_chip =
     \<lparr>regs = (\<lambda>r. 0)(PCA9685_MODE1 := 0x11, PCA9685_MODE2 := 0x04, PCA9685_PRESCALE := 0x1E),
      pointer = 0\<rparr>"

definition idle_wire :: TwoWire where
  "idle_wire =
     \<lparr>txAddress = 0, txBuffer = [], rxBuffer = [], devices = (\<lambda>a. power_on_chip), events = []\<rparr>"

definition fresh_driver :: PCA9685_Driver where
  "fresh_driver = new_driver PCA9685_I2C_ADDR idle_wire OSC_FREQ"

section \<open>One bus step at a time\<close>

lemmas bus_defs =
  beginTransmission_def wire_write_def endTransmission_def requestFrom_def wire_read_def delay_def

lemma readByte_value: "fst (readByte r d) = reg d (i2c_address d) r"
  by (simp add: readByte_def bus_defs reg_def Let_def split_beta)

lemma readByte_reg: "reg (snd (readByte r d)) a r' = reg d a r'"
  by (simp add: readByte_def bus_defs reg_def Let_def split_beta)

lemma readByte_log:
  "wire_log (snd (readByte r d)) =
     wire_log d @ [Transmit (i2c_address d) [r], Request (i2c_address d) 1]"
  by (simp add: readByte_def bus_defs wire_log_def Let_def split_beta)

lemma readByte_fields:
  "i2c_address (snd (readByte r d)) = i2c_address d"
  "i2c_allCall_address (snd (readByte r d)) = i2c_allCall_address d"
  "i2c_sub1_address (snd (readByte r d)) = i2c_sub1_address d"
  "i2c_sub2_address (snd (readByte r d)) = i2c_sub2_address d"
  "i2c_sub3_address (snd (readByte r d)) = i2c_sub3_address d"
  "osillator_freq (snd (readByte r d)) = osillator_freq d"
  by (simp_all add: readByte_def Let_def split_beta)

lemma writeByte_reg:
  "reg (writeByte t r v d) a r' = (if a = getAddress d t \<and> r' = r then v else reg d a r')"
  by (simp add: writeByte_def bus_defs reg_def Let_def split_beta)

lemma writeByte_log:
  "wire_log (writeByte t r v d) = wire_log d @ [Transmit (getAddress d t) [r, v]]"
  by (simp add: writeByte_def bus_defs wire_log_def Let_def split_beta)

lemma writeByte_fields:
  "i2c_address (writeByte t r v d) = i2c_address d"
  "i2c_allCall_address (writeByte t r v d) = i2c_allCall_address d"
  "i2c_sub1_address (writeByte t r v d) = i2c_sub1_address d"
  "i2c_sub2_address (writeByte t r v d) = i2c_sub2_address d"
  "i2c_sub3_address (writeByte t r v d) = i2c_sub3_address d"
  "osillator_freq (writeByte t r v d) = osillator_freq d"
  by (simp_all add: writeByte_def Let_def split_beta)

lemma readByte_getAddress: "getAddress (snd (readByte r d)) t = getAddress d t"
  by (cases t) (simp_all add: readByte_fields)

lemma writeByte_getAddress: "getAddress (writeByte t r v d) t' = getAddress d t'"
  by (cases t') (simp_all add: writeByte_fields)

lemma delay_reg: "reg (d\<lparr>i2c := delay n (i2c d)\<rparr>) a r = reg d a r"
  by (simp add: reg_def delay_def)

lemma delay_log: "wire_log (d\<lparr>i2c := delay n (i2c d)\<rparr>) = wire_log d @ [Delay n]"
  by (simp add: wire_log_def delay_def)

lemma i2c_update_getAddress: "getAddress (d\<lparr>i2c := w\<rparr>) t = getAddress d t"
  by (cases t) simp_all

lemma setOscillFrequency_frame:
  "reg (setOscillFrequency x d) a r = reg d a r"
  "wire_log (setOscillFrequency x d) = wire_log d"
  "getAddress (setOscillFrequency x d) t = getAddress d t"
  "i2c_address (setOscillFrequency x d) = i2c_address d"
  "osillator_freq (setOscillFrequency x d) = x"
  by (cases t; simp add: setOscillFrequency_def reg_def wire_log_def)+

lemmas step_simps =
  readByte_value readByte_reg readByte_log readByte_fields readByte_getAddress
  writeByte_reg writeByte_log writeByte_fields writeByte_getAddress
  delay_reg delay_log i2c_update_getAddress setOscillFrequency_frame

lemma requests_append: "requests (xs @ ys) = requests xs @ requests ys"
  by (induction xs rule: requests.induct) simp_all

lemma fresh_driver_simps:
  "i2c_address fresh_driver = 0x40"
  "i2c_allCall_address fresh_driver = 0x70"
  "osillator_freq fresh_driver = 25000000"
  "wire_log fresh_driver = []"
  "reg fresh_driver a PCA9685_MODE1 = 0x11"
  "reg fresh_driver a PCA9685_MODE2 = 0x04"
  "reg fresh_driver a PCA9685_PRESCALE = 0x1E"
  by (simp_all add: fresh_driver_def new_driver_def idle_wire_def power_on_chip_def reg_def
      wire_log_def PCA9685_I2C_ADDR_def PCA9685_I2C_ALL_CALL_def OSC_FREQ_def
      PCA9685_MODE1_def PCA9685_MODE2_def PCA9685_PRESCALE_def)

section \<open>Sleep and wake-up\<close>

lemma sleep_reg:
  "reg (sleep t d) a r =
     (if a = getAddress d t \<and> r = PCA9685_MODE1
      then reg d (i2c_address d) PCA9685_MODE1 OR MODE1_SLEEP else reg d a r)"
  by (simp add: sleep_def split_beta step_simps)

lemma wakeUp_reg:
  "reg (wakeUp t d) a r =
     (if a = getAddress d t \<and> r = PCA9685_MODE1
      then reg d (i2c_address d) PCA9685_MODE1 AND NOT MODE1_SLEEP else reg d a r)"
  by (simp add: wakeUp_def split_beta step_simps)

lemma sleep_address: "i2c_address (sleep t d) = i2c_address d"
  by (simp add: sleep_def split_beta step_simps)

lemma or_and_not: "(m OR b) AND NOT b = m AND NOT (b::u8)"
  by (auto simp add: bit_eq_iff bit_simps)

section \<open>The frequency functions, step by step\<close>

lemma setPWMFrequency_result:
  "fst (setPWMFrequency fl f t d) =
     f_of_u32 fl
       (osillator_freq d div (4096 * (ucast (prescale_byte fl (osillator_freq d) f) + 1)))"
  by (simp add: setPWMFrequency_def prescale_byte_def clamp_frequency_def Let_def split_beta
      step_simps)

lemma setPWMFrequency_log:
  "wire_log (snd (setPWMFrequency fl f t d)) =
     wire_log d @
     [Transmit (i2c_address d) [PCA9685_MODE1], Request (i2c_address d) 1,
      Transmit (i2c_address d) [PCA9685_MODE1], Request (i2c_address d) 1,
      Transmit (getAddress d t)
        [PCA9685_MODE1, (reg d (i2c_address d) PCA9685_MODE1 AND NOT MODE1_RESTART) OR MODE1_SLEEP],
      Transmit (getAddress d t) [PCA9685_PRESCALE, prescale_byte fl (osillator_freq d) f],
      Transmit (getAddress d t) [PCA9685_MODE1, reg d (i2c_address d) PCA9685_MODE1],
      Delay 5,
      Transmit (getAddress d t)
        [PCA9685_MODE1, reg d (i2c_address d) PCA9685_MODE1 OR MODE1_RESTART OR MODE1_AI],
      Transmit (i2c_address d) [PCA9685_MODE1], Request (i2c_address d) 1]"
  by (simp add: setPWMFrequency_def prescale_byte_def clamp_frequency_def Let_def split_beta
      step_simps)

lemma setPWMFrequency_reg:
  "reg (snd (setPWMFrequency fl f t d)) a r =
     (if a = getAddress d t \<and> r = PCA9685_MODE1
      then reg d (i2c_address d) PCA9685_MODE1 OR MODE1_RESTART OR MODE1_AI
      else if a = getAddress d t \<and> r = PCA9685_PRESCALE
      then prescale_byte fl (osillator_freq d) f
      else reg d a r)"
  by (simp add: setPWMFrequency_def prescale_byte_def clamp_frequency_def Let_def split_beta
      step_simps PCA9685_MODE1_def PCA9685_PRESCALE_def)

lemma setPWMFrequency_fields:
  "i2c_address (snd (setPWMFrequency fl f t d)) = i2c_address d"
  "osillator_freq (snd (setPWMFrequency fl f t d)) = osillator_freq d"
  by (simp_all add: setPWMFrequency_def Let_def split_beta step_simps)

text \<open>The target matters through its clamped value only.\<close>

lemma setPWMFrequency_cong:
  assumes "clamp_frequency fl (osillator_freq d) f = clamp_frequency fl (osillator_freq d) f'"
  shows "setPWMFrequency fl f t d = setPWMFrequency fl f' t d"
  using assms by (simp add: setPWMFrequency_def clamp_frequency_def Let_def)

lemma getPWMFrequency_result:
  "fst (getPWMFrequency fl d) =
     f_of_u32 fl
       (osillator_freq d div (4096 * (ucast (reg d (i2c_address d) PCA9685_PRESCALE) + 1)))"
  by (simp add: getPWMFrequency_def split_beta step_simps)

lemma setExtClock_log:
  "wire_log (setExtClock fl ext pwm t d) =
     wire_log d @
     [Transmit (i2c_address d) [PCA9685_MODE1], Request (i2c_address d) 1,
      Transmit (getAddress d t)
        [PCA9685_MODE1, (reg d (i2c_address d) PCA9685_MODE1 AND NOT MODE1_RESTART) OR MODE1_SLEEP],
      Transmit (getAddress d t)
        [PCA9685_MODE1,
         (reg d (i2c_address d) PCA9685_MODE1 AND NOT MODE1_RESTART) OR MODE1_SLEEP OR MODE1_EXTCLK],
      Transmit (getAddress d t) [PCA9685_PRESCALE, prescale_byte fl (f_to_u32 fl ext) pwm],
      Transmit (getAddress d t)
        [PCA9685_MODE1,
         (((reg d (i2c_address d) PCA9685_MODE1 AND NOT MODE1_RESTART) OR MODE1_SLEEP OR MODE1_EXTCLK)
            AND NOT MODE1_SLEEP) OR MODE1_RESTART OR MODE1_AI],
      Transmit (i2c_address d) [PCA9685_MODE1], Request (i2c_address d) 1]"
  by (simp add: setExtClock_def prescale_byte_def clamp_frequency_def Let_def split_beta
      step_simps or.assoc)

lemma setExtClock_osc: "osillator_freq (setExtClock fl ext pwm t d) = f_to_u32 fl ext"
  by (simp add: setExtClock_def Let_def split_beta step_simps)

section \<open>Evaluating single precision\<close>

lemma binary32_fops_simps:
  "f_of_int binary32_fops = (\<lambda>i. to_float (real_of_int i))"
  "f_of_u32 binary32_fops = (\<lambda>w. to_float (real (unat w)))"
  "f_to_u32 binary32_fops = (\<lambda>x. word_of_int (f32_to_int x))"
  "f_to_u8 binary32_fops = (\<lambda>x. word_of_int (f32_to_int x))"
  "f_less binary32_fops = f32_less"
  "f_mul binary32_fops = f32_mul"
  "f_div binary32_fops = f32_div"
  "f_add_half_sub_one binary32_fops = f32_add_half_sub_one"
  by (simp_all add: binary32_fops_def)

lemmas float_eval =
  round_to_def expo_def two_to_def rne_def compute_bitlen Let_def to_float_def to_double_def
  trunc_def binary32_fops_simps

lemma of_int_binary32:
  "f_of_int binary32_fops 0 = Num 0"
  "f_of_int binary32_fops 1 = Num 1"
  "f_of_int binary32_fops 1525 = Num 1525"
  "f_of_int binary32_fops 1526 = Num 1526"
  "f_of_int binary32_fops 100000 = Num 100000"
  by (simp_all add: float_eval)

lemma to_u32_binary32:
  "f_to_u32 binary32_fops (Num 50000000) = 50000000"
  "f_to_u32 binary32_fops (Num 25000000) = 25000000"
  "f_to_u32 binary32_fops (Num 32767) = 32767"
  by (simp_all add: float_eval)

lemma prescale_byte_at_1000: "prescale_byte binary32_fops 25000000 (Num 1000) = 5"
  by (simp add: prescale_byte_def clamp_frequency_def float_eval)

text \<open>
  Where the quotient has to be rounded: \<open>25000000 / 2941176.5 = 8.49999983...\<close>
  becomes the float 8.5, and the prescaler 8.
\<close>

lemma prescale_byte_rounded:
  "prescale_byte binary32_fops 25000000 (Num (5882353 / 8192)) = 8"
  by (simp add: prescale_byte_def clamp_frequency_def float_eval)

text \<open>Where the truncated limit bites: at 32767 Hz the limit is 1, and 1.5 is above it.\<close>

lemma prescale_byte_limit_1: "prescale_byte binary32_fops 32767 (Num (3 / 2)) = 7"
  by (simp add: prescale_byte_def clamp_frequency_def float_eval)

lemma setPWMFrequency_limit_1:
  "setPWMFrequency binary32_fops (Num (3 / 2)) Normal (setOscillFrequency 32767 fresh_driver)
       = setPWMFrequency binary32_fops (Num 1) Normal (setOscillFrequency 32767 fresh_driver)"
  by (rule setPWMFrequency_cong) (simp add: clamp_frequency_def setOscillFrequency_frame float_eval)

lemma and_not_self_iff: "(m AND NOT b = m) = (m AND b = (0::u8))"
  by (auto simp add: bit_eq_iff bit_simps)

section \<open>The channel burst\<close>

lemma setPWMOutput_log:
  "wire_log (setPWMOutput output on off t d) =
     wire_log d @
     [Transmit (getAddress d t)
        [PCA9685_LED0_ON_L + 4 * output,
         ucast (on AND 0xFF), ucast (drop_bit 8 on AND 0xFF),
         ucast (off AND 0xFF), ucast (drop_bit 8 off AND 0xFF)]]"
  by (simp add: setPWMOutput_def bus_defs wire_log_def Let_def)

lemma and_FF: "x AND 0xFF = take_bit 8 (x :: u16)"
proof -
  have "(0xFF :: u16) = mask 8" by (simp add: mask_eq_exp_minus_1)
  then show ?thesis by (simp only: take_bit_eq_mask)
qed

lemma low_byte: "unat (ucast (x AND 0xFF) :: u8) = unat (x :: u16) mod 256"
proof -
  have "unat (ucast (take_bit 8 x) :: u8) = take_bit 8 (take_bit 8 (unat x))"
    by (simp only: unsigned_ucast_eq unsigned_take_bit_eq len_bit0 len_num1) simp
  then show ?thesis
    by (simp add: and_FF take_bit_eq_mod)
qed

lemma high_byte: "unat (ucast (drop_bit 8 x AND 0xFF) :: u8) = unat (x :: u16) div 256"
proof -
  have "unat x < 65536"
    using unsigned_less [of x, where 'a = nat] by simp
  then have small: "unat x div 256 < 256" by simp
  have "unat (ucast (drop_bit 8 x AND 0xFF) :: u8) = unat (drop_bit 8 x) mod 256"
    by (rule low_byte)
  also have "unat (drop_bit 8 x) = unat x div 256"
    by (simp only: unat_drop_bit_eq) (simp add: drop_bit_eq_div)
  finally show ?thesis using small by simp
qed

lemma base_register: 
  assumes "output \<le> 15"
  shows "unat (PCA9685_LED0_ON_L + 4 * output) = 6 + 4 * unat output"
proof -
  have "unat output \<le> 15" using assms by (simp add: word_le_nat_alt)
  then show ?thesis
    by (simp add: PCA9685_LED0_ON_L_def unat_word_ariths)
qed

section \<open>Mode-2 and the reads\<close>

lemma setOutputType_log:
  "wire_log (setOutputType ty t d) =
     wire_log d @
     [Transmit (i2c_address d) [PCA9685_MODE2], Request (i2c_address d) 1,
      Transmit (getAddress d t) [PCA9685_MODE2, reg d (i2c_address d) PCA9685_MODE2],
      Transmit (i2c_address d) [PCA9685_MODE2], Request (i2c_address d) 1]"
  by (cases ty) (simp_all add: setOutputType_def discard_def Let_def split_beta step_simps)

lemma setOutputType_reg:
  "reg (setOutputType ty t d) a r =
     (if a = getAddress d t \<and> r = PCA9685_MODE2 then reg d (i2c_address d) PCA9685_MODE2
      else reg d a r)"
  by (cases ty) (simp_all add: setOutputType_def discard_def Let_def split_beta step_simps)

lemma sleep_log:
  "wire_log (sleep t d) =
     wire_log d @
     [Transmit (i2c_address d) [PCA9685_MODE1], Request (i2c_address d) 1,
      Transmit (getAddress d t) [PCA9685_MODE1, reg d (i2c_address d) PCA9685_MODE1 OR MODE1_SLEEP]]"
  by (simp add: sleep_def split_beta step_simps)

lemma wakeUp_log:
  "wire_log (wakeUp t d) =
     wire_log d @
     [Transmit (i2c_address d) [PCA9685_MODE1], Request (i2c_address d) 1,
      Transmit (getAddress d t)
        [PCA9685_MODE1, reg d (i2c_address d) PCA9685_MODE1 AND NOT MODE1_SLEEP]]"
  by (simp add: wakeUp_def split_beta step_simps)

lemma getPWMFrequency_log:
  "wire_log (snd (getPWMFrequency fl d)) =
     wire_log d @ [Transmit (i2c_address d) [PCA9685_PRESCALE], Request (i2c_address d) 1]"
  by (simp add: getPWMFrequency_def split_beta step_simps)

section \<open>The power-on fixture\<close>

lemma fresh_driver_regs:
  "reg fresh_driver a 0x00 = 0x11"
  "reg fresh_driver a 0x01 = 0x04"
  "reg fresh_driver a 0xFE = 0x1E"
  using fresh_driver_simps(5-7) [of a]
  by (simp_all add: PCA9685_MODE1_def PCA9685_MODE2_def PCA9685_PRESCALE_def)

lemmas mode_bits = MODE1_SLEEP_def MODE1_AI_def MODE1_EXTCLK_def MODE1_RESTART_def

section \<open>The claims\<close>

text \<open>
  C1, at the input where the code leaves it. With the internal oscillator
  (25 MHz) and a target of 1000 Hz, \<^verbatim>\<open>setPWMFrequency\<close> programs the prescaler 5
  and returns 1017: the quotient of line 231 is taken in unsigned integers and
  only then converted to \<^verbatim>\<open>float\<close>, so the fraction of
  25000000 / (4096 * 6) = 1017.25... is lost. Every float value of this run
  (4096000, 6.103515625, 5.603515625) is a short binary fraction, so no
  operation of it rounds.
\<close>

theorem setPWMFrequency_returns_truncated_quotient:
  "fst (setPWMFrequency binary32_fops (Num 1000) Normal fresh_driver) = Num 1017
   \<and> reg (snd (setPWMFrequency binary32_fops (Num 1000) Normal fresh_driver)) 0x40
         PCA9685_PRESCALE = 5
   \<and> (25000000 :: real) / (4096 * (5 + 1)) \<noteq> 1017
   \<and> \<lfloor>(25000000 :: real) / (4096 * (5 + 1))\<rfloor> = 1017"
  by (simp add: setPWMFrequency_result setPWMFrequency_reg prescale_byte_at_1000
      fresh_driver_simps PCA9685_MODE1_def PCA9685_PRESCALE_def)
    (simp add: float_eval)

text \<open>
  C2, as amended. For every target, every driver state and every float
  semantics, \<^verbatim>\<open>setPWMFrequency\<close> works on a clamped target: 1 if the target is
  below 1, else the limit if the target is above the limit, else the target
  itself, where the limit is the integer quotient of the oscillator frequency
  by 16384, truncated. The prescaler byte it writes and the frequency it
  returns are computed from the clamped target, and the bus sees the sequence
  below whatever the target was: no input is rejected. With the oscillator at
  25 MHz the limit is 1525, so on a float semantics that orders the five
  integers involved, \<^verbatim>\<open>setPWMFrequency(0)\<close> does what \<^verbatim>\<open>setPWMFrequency(1)\<close> does,
  and \<^verbatim>\<open>setPWMFrequency(100000)\<close> what \<^verbatim>\<open>setPWMFrequency(1526)\<close> does, which is what
  \<^verbatim>\<open>setPWMFrequency(1525)\<close> does.
\<close>

theorem setPWMFrequency_clamps_argument:
  "(let limit = f_of_int fl (uint (osillator_freq d div 16384));
        target = (if f_less fl f (f_of_int fl 1) then f_of_int fl 1
                  else if f_less fl limit f then limit else f);
        v = f_add_half_sub_one fl
              (f_div fl (f_of_u32 fl (osillator_freq d)) (f_mul fl (f_of_int fl 4096) target));
        pb = f_to_u8 fl (if f_less fl v (f_of_int fl 3) then f_of_int fl 3
                         else if f_less fl (f_of_int fl 255) v then f_of_int fl 255 else v);
        m = reg d (i2c_address d) PCA9685_MODE1
    in wire_log (snd (setPWMFrequency fl f t d)) =
         wire_log d @
         [Transmit (i2c_address d) [PCA9685_MODE1], Request (i2c_address d) 1,
          Transmit (i2c_address d) [PCA9685_MODE1], Request (i2c_address d) 1,
          Transmit (getAddress d t) [PCA9685_MODE1, (m AND NOT MODE1_RESTART) OR MODE1_SLEEP],
          Transmit (getAddress d t) [PCA9685_PRESCALE, pb],
          Transmit (getAddress d t) [PCA9685_MODE1, m],
          Delay 5,
          Transmit (getAddress d t) [PCA9685_MODE1, m OR MODE1_RESTART OR MODE1_AI],
          Transmit (i2c_address d) [PCA9685_MODE1], Request (i2c_address d) 1]
       \<and> fst (setPWMFrequency fl f t d) =
           f_of_u32 fl (osillator_freq d div (4096 * (ucast pb + 1))))
   \<and> (osillator_freq d = 25000000 \<and> orders_ints fl [0, 1, 1525, 1526, 100000] \<longrightarrow>
         setPWMFrequency fl (f_of_int fl 0) t d = setPWMFrequency fl (f_of_int fl 1) t d
       \<and> setPWMFrequency fl (f_of_int fl 100000) t d = setPWMFrequency fl (f_of_int fl 1526) t d
       \<and> setPWMFrequency fl (f_of_int fl 100000) t d = setPWMFrequency fl (f_of_int fl 1525) t d)"
proof -
  have g: "(let limit = f_of_int fl (uint (osillator_freq d div 16384));
        target = (if f_less fl f (f_of_int fl 1) then f_of_int fl 1
                  else if f_less fl limit f then limit else f);
        v = f_add_half_sub_one fl
              (f_div fl (f_of_u32 fl (osillator_freq d)) (f_mul fl (f_of_int fl 4096) target));
        pb = f_to_u8 fl (if f_less fl v (f_of_int fl 3) then f_of_int fl 3
                         else if f_less fl (f_of_int fl 255) v then f_of_int fl 255 else v);
        m = reg d (i2c_address d) PCA9685_MODE1
    in wire_log (snd (setPWMFrequency fl f t d)) =
         wire_log d @
         [Transmit (i2c_address d) [PCA9685_MODE1], Request (i2c_address d) 1,
          Transmit (i2c_address d) [PCA9685_MODE1], Request (i2c_address d) 1,
          Transmit (getAddress d t) [PCA9685_MODE1, (m AND NOT MODE1_RESTART) OR MODE1_SLEEP],
          Transmit (getAddress d t) [PCA9685_PRESCALE, pb],
          Transmit (getAddress d t) [PCA9685_MODE1, m],
          Delay 5,
          Transmit (getAddress d t) [PCA9685_MODE1, m OR MODE1_RESTART OR MODE1_AI],
          Transmit (i2c_address d) [PCA9685_MODE1], Request (i2c_address d) 1]
       \<and> fst (setPWMFrequency fl f t d) =
           f_of_u32 fl (osillator_freq d div (4096 * (ucast pb + 1))))"
    by (simp add: Let_def setPWMFrequency_log setPWMFrequency_result prescale_byte_def
        clamp_frequency_def)
  have c: "osillator_freq d = 25000000 \<and> orders_ints fl [0, 1, 1525, 1526, 100000] \<longrightarrow>
         setPWMFrequency fl (f_of_int fl 0) t d = setPWMFrequency fl (f_of_int fl 1) t d
       \<and> setPWMFrequency fl (f_of_int fl 100000) t d = setPWMFrequency fl (f_of_int fl 1526) t d
       \<and> setPWMFrequency fl (f_of_int fl 100000) t d = setPWMFrequency fl (f_of_int fl 1525) t d"
    by (simp add: setPWMFrequency_def orders_ints_def Let_def)
  from g c show ?thesis by (rule conjI)
qed

theorem setPWMFrequency_clamps_argument_witness:
  "osillator_freq fresh_driver = 25000000
   \<and> orders_ints binary32_fops [0, 1, 1525, 1526, 100000]
   \<and> setPWMFrequency binary32_fops (Num 0) Normal fresh_driver
       = setPWMFrequency binary32_fops (Num 1) Normal fresh_driver
   \<and> setPWMFrequency binary32_fops (Num 100000) Normal fresh_driver
       = setPWMFrequency binary32_fops (Num 1526) Normal fresh_driver
   \<and> setPWMFrequency binary32_fops (Num 100000) Normal fresh_driver
       = setPWMFrequency binary32_fops (Num 1525) Normal fresh_driver"
proof -
  have a: "osillator_freq fresh_driver = 25000000"
    by (simp add: fresh_driver_simps)
  have b: "orders_ints binary32_fops [0, 1, 1525, 1526, 100000]"
    by (simp add: orders_ints_def float_eval)
  have "setPWMFrequency binary32_fops (f_of_int binary32_fops 0) Normal fresh_driver
          = setPWMFrequency binary32_fops (f_of_int binary32_fops 1) Normal fresh_driver
      \<and> setPWMFrequency binary32_fops (f_of_int binary32_fops 100000) Normal fresh_driver
          = setPWMFrequency binary32_fops (f_of_int binary32_fops 1526) Normal fresh_driver
      \<and> setPWMFrequency binary32_fops (f_of_int binary32_fops 100000) Normal fresh_driver
          = setPWMFrequency binary32_fops (f_of_int binary32_fops 1525) Normal fresh_driver"
    using setPWMFrequency_clamps_argument [of binary32_fops fresh_driver "Num 0" Normal] a b
    by blast
  with a b show ?thesis
    unfolding of_int_binary32 by blast
qed

text \<open>
  C2 as stated takes the limit to be \<open>osc / 16384\<close>. At 32767 Hz that is
  1.99993..., and the target 1.5 lies within \<open>[1, 1.99993...]\<close>; yet the code,
  whose limit is \<open>32767 div 16384 = 1\<close>, treats it as 1 and writes the prescaler
  7, where a target of 1.5 left alone gives 4. Every float value of the run is
  a short binary fraction.
\<close>

theorem setPWMFrequency_clamps_argument_counterexample:
  "(1::real) \<le> 3 / 2 \<and> (3 / 2 :: real) \<le> 32767 / 16384
   \<and> wire_log (snd (setPWMFrequency binary32_fops (Num (3 / 2)) Normal
                      (setOscillFrequency 32767 fresh_driver))) =
       [Transmit 0x40 [0x00], Request 0x40 1, Transmit 0x40 [0x00], Request 0x40 1,
        Transmit 0x40 [0x00, 0x11], Transmit 0x40 [0xFE, 0x07], Transmit 0x40 [0x00, 0x11],
        Delay 5, Transmit 0x40 [0x00, 0xB1], Transmit 0x40 [0x00], Request 0x40 1]
   \<and> spec_prescale 32767 (3 / 2) = 4
   \<and> setPWMFrequency binary32_fops (Num (3 / 2)) Normal (setOscillFrequency 32767 fresh_driver)
       = setPWMFrequency binary32_fops (Num 1) Normal (setOscillFrequency 32767 fresh_driver)"
proof -
  have sp: "spec_prescale 32767 (3 / 2) = 4"
    by (simp add: spec_prescale_def Let_def round_def)
  have lg: "wire_log (snd (setPWMFrequency binary32_fops (Num (3 / 2)) Normal
                      (setOscillFrequency 32767 fresh_driver))) =
       [Transmit 0x40 [0x00], Request 0x40 1, Transmit 0x40 [0x00], Request 0x40 1,
        Transmit 0x40 [0x00, 0x11], Transmit 0x40 [0xFE, 0x07], Transmit 0x40 [0x00, 0x11],
        Delay 5, Transmit 0x40 [0x00, 0xB1], Transmit 0x40 [0x00], Request 0x40 1]"
    by (simp add: setPWMFrequency_log step_simps prescale_byte_limit_1 fresh_driver_simps
        fresh_driver_regs PCA9685_MODE1_def PCA9685_PRESCALE_def mode_bits)
  from sp lg setPWMFrequency_limit_1 show ?thesis by simp
qed

text \<open>
  C3, as amended. For every external frequency, target, address type, driver
  state and float semantics, \<^verbatim>\<open>setExtClock\<close> adds to the wire, in this order: the
  read of mode-1; the write of that value with RESTART cleared and SLEEP set;
  the write of the same value with EXTCLK also set; the write of the prescaler;
  the write of mode-1 with SLEEP cleared and RESTART and AI set; and last the
  read of mode-1 that feeds the debug print. The cached oscillator frequency
  becomes the external frequency as converted to \<^verbatim>\<open>uint32_t\<close>. The prescaler is
  computed in floating point: the target is clamped to 1 from below and to the
  truncated integer quotient of the oscillator frequency by 16384 from above,
  the float quotient of the oscillator frequency by 4096 times the target gets
  0.5 added and 1 subtracted, and the result is clamped to \<open>[3, 255]\<close> and
  truncated to a byte.
\<close>

theorem setExtClock_sequence:
  "(let osc = f_to_u32 fl ext;
        limit = f_of_int fl (uint (osc div 16384));
        target = (if f_less fl pwm (f_of_int fl 1) then f_of_int fl 1
                  else if f_less fl limit pwm then limit else pwm);
        v = f_add_half_sub_one fl
              (f_div fl (f_of_u32 fl osc) (f_mul fl (f_of_int fl 4096) target));
        pb = f_to_u8 fl (if f_less fl v (f_of_int fl 3) then f_of_int fl 3
                         else if f_less fl (f_of_int fl 255) v then f_of_int fl 255 else v);
        m = (reg d (i2c_address d) PCA9685_MODE1 AND NOT MODE1_RESTART) OR MODE1_SLEEP
    in wire_log (setExtClock fl ext pwm t d) =
         wire_log d @
         [Transmit (i2c_address d) [PCA9685_MODE1], Request (i2c_address d) 1,
          Transmit (getAddress d t) [PCA9685_MODE1, m],
          Transmit (getAddress d t) [PCA9685_MODE1, m OR MODE1_EXTCLK],
          Transmit (getAddress d t) [PCA9685_PRESCALE, pb],
          Transmit (getAddress d t)
            [PCA9685_MODE1, ((m OR MODE1_EXTCLK) AND NOT MODE1_SLEEP) OR MODE1_RESTART OR MODE1_AI],
          Transmit (i2c_address d) [PCA9685_MODE1], Request (i2c_address d) 1]
       \<and> osillator_freq (setExtClock fl ext pwm t d) = osc)"
  by (simp add: Let_def setExtClock_log setExtClock_osc prescale_byte_def clamp_frequency_def
      or.assoc)

theorem setExtClock_sequence_witness:
  "wire_log (setExtClock binary32_fops (Num 50000000) (Num 50) AllCall fresh_driver) =
       [Transmit 0x40 [0x00], Request 0x40 1,
        Transmit 0x70 [0x00, 0x11], Transmit 0x70 [0x00, 0x51],
        Transmit 0x70 [0xFE, 0xF3], Transmit 0x70 [0x00, 0xE1],
        Transmit 0x40 [0x00], Request 0x40 1]
   \<and> osillator_freq (setExtClock binary32_fops (Num 50000000) (Num 50) AllCall fresh_driver)
       = 50000000"
  using setExtClock_sequence [of binary32_fops "Num 50000000" "Num 50" fresh_driver AllCall]
  by (simp add: Let_def to_u32_binary32 float_eval fresh_driver_simps fresh_driver_regs
      PCA9685_MODE1_def PCA9685_PRESCALE_def mode_bits)

text \<open>
  C3 as stated has the prescaler \<open>round(osc / (4096 \<times> target)) - 1\<close> with the
  target clamped to \<open>[1, osc/16384]\<close>. In single precision the code departs from
  it at two inputs. At 25 MHz and a target of 718.0606689453125 the quotient
  8.49999983... is rounded to the float 8.5, so the code writes 8 and not 7. At
  32767 Hz and a target of 1.5, which is below \<open>32767/16384\<close>, the code clamps
  the target to 1 and writes 7 and not 4.
\<close>

theorem setExtClock_sequence_counterexample:
  "wire_log (setExtClock binary32_fops (Num 25000000) (Num (5882353 / 8192)) Normal fresh_driver) =
       [Transmit 0x40 [0x00], Request 0x40 1,
        Transmit 0x40 [0x00, 0x11], Transmit 0x40 [0x00, 0x51],
        Transmit 0x40 [0xFE, 0x08], Transmit 0x40 [0x00, 0xE1],
        Transmit 0x40 [0x00], Request 0x40 1]
   \<and> spec_prescale 25000000 (5882353 / 8192) = 7
   \<and> wire_log (setExtClock binary32_fops (Num 32767) (Num (3 / 2)) Normal fresh_driver) =
       [Transmit 0x40 [0x00], Request 0x40 1,
        Transmit 0x40 [0x00, 0x11], Transmit 0x40 [0x00, 0x51],
        Transmit 0x40 [0xFE, 0x07], Transmit 0x40 [0x00, 0xE1],
        Transmit 0x40 [0x00], Request 0x40 1]
   \<and> (1::real) \<le> 3 / 2 \<and> (3 / 2 :: real) \<le> 32767 / 16384
   \<and> spec_prescale 32767 (3 / 2) = 4"
proof -
  have sa: "spec_prescale 25000000 (5882353 / 8192) = 7"
    by (simp add: spec_prescale_def Let_def round_def)
  have sb: "spec_prescale 32767 (3 / 2) = 4"
    by (simp add: spec_prescale_def Let_def round_def)
  show ?thesis
    by (simp add: setExtClock_log to_u32_binary32 prescale_byte_rounded prescale_byte_limit_1
        sa sb fresh_driver_simps fresh_driver_regs PCA9685_MODE1_def PCA9685_PRESCALE_def
        mode_bits)
qed

text \<open>
  C4, as amended. For every mode-1 value, \<^verbatim>\<open>sleep()\<close> ORs the SLEEP bit into the
  byte it read and \<^verbatim>\<open>wakeUp()\<close> clears it, every other bit kept; so \<^verbatim>\<open>sleep()\<close>
  followed by \<^verbatim>\<open>wakeUp()\<close> leaves mode-1 at its earlier value with the SLEEP bit
  cleared, which is the earlier value bit for bit exactly when the chip was not
  asleep before.
\<close>

theorem sleep_then_wakeUp_clears_sleep:
  "reg (sleep Normal d) (i2c_address d) PCA9685_MODE1
     = reg d (i2c_address d) PCA9685_MODE1 OR MODE1_SLEEP
   \<and> reg (wakeUp Normal d) (i2c_address d) PCA9685_MODE1
     = reg d (i2c_address d) PCA9685_MODE1 AND NOT MODE1_SLEEP
   \<and> reg (wakeUp Normal (sleep Normal d)) (i2c_address d) PCA9685_MODE1
     = reg d (i2c_address d) PCA9685_MODE1 AND NOT MODE1_SLEEP
   \<and> (reg (wakeUp Normal (sleep Normal d)) (i2c_address d) PCA9685_MODE1
        = reg d (i2c_address d) PCA9685_MODE1)
     = (reg d (i2c_address d) PCA9685_MODE1 AND MODE1_SLEEP = 0)"
  by (simp add: sleep_reg wakeUp_reg sleep_address or_and_not and_not_self_iff)

text \<open>
  C4 as stated fails on a chip that is asleep already, as it is after power-on
  (mode-1 = 0x11): \<^verbatim>\<open>sleep()\<close> then \<^verbatim>\<open>wakeUp()\<close> leaves 0x01.
\<close>

theorem sleep_then_wakeUp_counterexample:
  "reg fresh_driver (i2c_address fresh_driver) PCA9685_MODE1 = 0x11
   \<and> reg (wakeUp Normal (sleep Normal fresh_driver)) (i2c_address fresh_driver) PCA9685_MODE1 = 0x01
   \<and> reg (wakeUp Normal (sleep Normal fresh_driver)) (i2c_address fresh_driver) PCA9685_MODE1
       \<noteq> reg fresh_driver (i2c_address fresh_driver) PCA9685_MODE1"
  by (simp add: sleep_reg wakeUp_reg sleep_address fresh_driver_simps MODE1_SLEEP_def)

text \<open>
  C5. \<^verbatim>\<open>getPWMFrequency()\<close> called right after \<^verbatim>\<open>setPWMFrequency(f)\<close> returns what
  that call returned, for every frequency, every driver state and every float
  semantics: both divide the cached oscillator frequency by 4096 times the
  prescaler byte plus one, and the byte read back is the byte written.
\<close>

theorem getPWMFrequency_reads_back:
  "fst (getPWMFrequency fl (snd (setPWMFrequency fl f Normal d)))
     = fst (setPWMFrequency fl f Normal d)"
  by (simp add: getPWMFrequency_result setPWMFrequency_result setPWMFrequency_reg
      setPWMFrequency_fields PCA9685_MODE1_def PCA9685_PRESCALE_def)

text \<open>
  C6. For every channel 0..15 and all 16-bit tick values, \<^verbatim>\<open>setPWMOutput\<close> adds one
  transaction to the wire: register 0x06 + 4 * channel, then the low and high
  bytes of \<open>on\<close> and the low and high bytes of \<open>off\<close>.
\<close>

theorem setPWMOutput_burst:
  assumes "output \<le> 15"
  shows "wire_log (setPWMOutput output on off t d) =
           wire_log d @
           [Transmit (getAddress d t)
              [PCA9685_LED0_ON_L + 4 * output,
               ucast (on AND 0xFF), ucast (drop_bit 8 on AND 0xFF),
               ucast (off AND 0xFF), ucast (drop_bit 8 off AND 0xFF)]]
     \<and> unat (PCA9685_LED0_ON_L + 4 * output) = 0x06 + 4 * unat output
     \<and> unat (ucast (on AND 0xFF) :: u8) = unat on mod 256
     \<and> unat (ucast (drop_bit 8 on AND 0xFF) :: u8) = unat on div 256
     \<and> unat (ucast (off AND 0xFF) :: u8) = unat off mod 256
     \<and> unat (ucast (drop_bit 8 off AND 0xFF) :: u8) = unat off div 256"
  using base_register [OF assms] setPWMOutput_log [of "output" "on" "off" t d]
    low_byte [of "on"] low_byte [of "off"] high_byte [of "on"] high_byte [of "off"]
  by (simp only: simp_thms)

theorem setPWMOutput_burst_witness:
  "(7::u8) \<le> 15 \<and>
   wire_log (setPWMOutput 7 0x0123 0x0FED AllCall fresh_driver) =
     [Transmit 0x70 [0x22, 0x23, 0x01, 0xED, 0x0F]]"
  using setPWMOutput_burst [of 7 "0x0123" "0x0FED" AllCall fresh_driver]
  by (simp add: fresh_driver_simps PCA9685_LED0_ON_L_def)

text \<open>
  C7. Each of the five selectors resolves to the address stored for it, and
  \<open>Normal\<close> to the primary address whatever the four alternate fields hold.
\<close>

theorem getAddress_resolves:
  "getAddress d Normal = i2c_address d
   \<and> getAddress d AllCall = i2c_allCall_address d
   \<and> getAddress d SubCall1 = i2c_sub1_address d
   \<and> getAddress d SubCall2 = i2c_sub2_address d
   \<and> getAddress d SubCall3 = i2c_sub3_address d
   \<and> getAddress (d\<lparr>i2c_allCall_address := a0, i2c_sub1_address := a1,
                      i2c_sub2_address := a2, i2c_sub3_address := a3\<rparr>) Normal = i2c_address d"
  by simp

text \<open>
  C8. Whatever output type is asked for and whatever mode-2 holds,
  \<^verbatim>\<open>setOutputType\<close> writes to mode-2 the very byte it has just read from the
  primary address (the OR or AND it computes is thrown away); with \<open>Normal\<close>
  addressing no register of any chip changes, the OUTDRV bit included.
\<close>

theorem setOutputType_writes_back_what_it_read:
  "wire_log (setOutputType ty t d) =
     wire_log d @
     [Transmit (i2c_address d) [PCA9685_MODE2], Request (i2c_address d) 1,
      Transmit (getAddress d t) [PCA9685_MODE2, reg d (i2c_address d) PCA9685_MODE2],
      Transmit (i2c_address d) [PCA9685_MODE2], Request (i2c_address d) 1]
   \<and> reg (setOutputType ty Normal d) a r = reg d a r
   \<and> reg (setOutputType ty Normal d) (i2c_address d) PCA9685_MODE2 AND MODE2_OUTDRV
       = reg d (i2c_address d) PCA9685_MODE2 AND MODE2_OUTDRV"
  by (simp add: setOutputType_log setOutputType_reg)

text \<open>
  C9. \<^verbatim>\<open>setOscillFrequency(f)\<close> changes the cached oscillator frequency and nothing
  else: the bus state and the wire log are as before, \<^verbatim>\<open>getOscillFrequency()\<close>
  returns \<open>f\<close>, and the frequencies computed afterwards divide \<open>f\<close>.
\<close>

theorem setOscillFrequency_touches_only_the_cache:
  "setOscillFrequency f d = d\<lparr>osillator_freq := f\<rparr>
   \<and> i2c (setOscillFrequency f d) = i2c d
   \<and> wire_log (setOscillFrequency f d) = wire_log d
   \<and> getOscillFrequency (setOscillFrequency f d) = f
   \<and> fst (getPWMFrequency fl (setOscillFrequency f d)) =
       f_of_u32 fl (f div (4096 * (ucast (reg d (i2c_address d) PCA9685_PRESCALE) + 1)))
   \<and> fst (setPWMFrequency fl x t (setOscillFrequency f d)) =
       f_of_u32 fl (f div (4096 * (ucast (prescale_byte fl f x) + 1)))"
  by (simp add: getPWMFrequency_result setPWMFrequency_result setOscillFrequency_frame
      getOscillFrequency_def)
    (simp add: setOscillFrequency_def)

text \<open>
  C10. Every read request goes to the primary address, whatever address type the
  operation was given: \<^verbatim>\<open>readByte\<close> selects the register and requests one byte
  there, and \<^verbatim>\<open>readRegister\<close>, \<^verbatim>\<open>getPWMFrequency\<close>, \<^verbatim>\<open>sleep\<close>, \<^verbatim>\<open>wakeUp\<close>,
  \<^verbatim>\<open>setOutputType\<close>, \<^verbatim>\<open>setExtClock\<close> and \<^verbatim>\<open>setPWMFrequency\<close> add read
  requests to the primary address only. So \<^verbatim>\<open>sleep(addressType)\<close> reads mode-1
  from the primary address and writes the modified byte to the selected
  address, for instance the all-call address.
\<close>

theorem reads_go_to_the_primary_address:
  "wire_log (snd (readByte r d)) =
     wire_log d @ [Transmit (i2c_address d) [r], Request (i2c_address d) 1]
   \<and> requests (wire_log (snd (readRegister r d))) = requests (wire_log d) @ [i2c_address d]
   \<and> requests (wire_log (snd (getPWMFrequency fl d))) = requests (wire_log d) @ [i2c_address d]
   \<and> requests (wire_log (sleep t d)) = requests (wire_log d) @ [i2c_address d]
   \<and> requests (wire_log (wakeUp t d)) = requests (wire_log d) @ [i2c_address d]
   \<and> requests (wire_log (setOutputType ty t d))
       = requests (wire_log d) @ [i2c_address d, i2c_address d]
   \<and> requests (wire_log (setExtClock fl ext pwm t d))
       = requests (wire_log d) @ [i2c_address d, i2c_address d]
   \<and> requests (wire_log (snd (setPWMFrequency fl f t d)))
       = requests (wire_log d) @ [i2c_address d, i2c_address d, i2c_address d]
   \<and> wire_log (sleep t d) =
       wire_log d @
       [Transmit (i2c_address d) [PCA9685_MODE1], Request (i2c_address d) 1,
        Transmit (getAddress d t)
          [PCA9685_MODE1, reg d (i2c_address d) PCA9685_MODE1 OR MODE1_SLEEP]]
   \<and> wire_log (sleep AllCall d) =
       wire_log d @
       [Transmit (i2c_address d) [PCA9685_MODE1], Request (i2c_address d) 1,
        Transmit (i2c_allCall_address d)
          [PCA9685_MODE1, reg d (i2c_address d) PCA9685_MODE1 OR MODE1_SLEEP]]"
  by (simp add: readByte_log readRegister_def getPWMFrequency_log sleep_log wakeUp_log
      setOutputType_log setExtClock_log setPWMFrequency_log requests_append)

end
